theory Spec2Isabelle
  imports Complex_Main "HOL-Library.AList" "HOL-Library.Char_ord" "HOL-Library.List_Lexorder"
begin

section \<open>Values of the row set\<close>

text \<open>
  The dashboard of \<^verbatim>\<open>src/App.tsx\<close> reads rows of type
  \<^verbatim>\<open>Record<string, unknown>\<close> that come out of \<^verbatim>\<open>JSON.parse\<close>. A JavaScript
  number is modelled by \<open>jsnum\<close>: a finite number is an exact rational (every finite
  double is one), beside the three values that are not finite. Arithmetic on finite
  numbers is exact here: the rounding of IEEE doubles and the sign of zero are outside the
  model. A string is a list of 8-bit characters.
\<close>

datatype jsnum = Fin rat | PosInf | NegInf | NaN

datatype jsval =
    JUndefined
  | JNull
  | JBoolean bool
  | JNumber jsnum
  | JString string
  | JArray "jsval list"
  | JObject "(string \<times> jsval) list"

type_synonym AnyRecord = "string \<rightharpoonup> jsval"

text \<open>\<^verbatim>\<open>r[c]\<close>: the value of a property, \<^verbatim>\<open>undefined\<close> when the row has no such key.\<close>

definition get_prop :: "AnyRecord \<Rightarrow> string \<Rightarrow> jsval" where
  "get_prop r c = (case r c of None \<Rightarrow> JUndefined | Some v \<Rightarrow> v)"

section \<open>Built-in operations of the language\<close>

text \<open>
  White space and line terminators as \<^verbatim>\<open>String.prototype.trim\<close> and the grammar of
  \<^verbatim>\<open>StringToNumber\<close> know them, among the 8-bit characters: TAB, LF, VT, FF, CR, SP and
  NBSP.
\<close>

definition isWhiteSpace :: "char \<Rightarrow> bool" where
  "isWhiteSpace c = ((of_char c :: nat) \<in> {9, 10, 11, 12, 13, 32, 160})"

definition trim :: "string \<Rightarrow> string" where
  "trim s = rev (dropWhile isWhiteSpace (rev (dropWhile isWhiteSpace s)))"

text \<open>The truthiness of a string, and of an optional string such as a selected column.\<close>

definition truthy :: "string \<Rightarrow> bool" where
  "truthy s = (s \<noteq> [])"

definition selected :: "string option \<Rightarrow> bool" where
  "selected k = (case k of None \<Rightarrow> False | Some s \<Rightarrow> truthy s)"

text \<open>\<^verbatim>\<open>a || b\<close> on optional strings.\<close>

definition or_else :: "string option \<Rightarrow> string option \<Rightarrow> string option" where
  "or_else a b = (if selected a then a else b)"

subsection \<open>Number(string)\<close>

text \<open>
  \<^verbatim>\<open>Number(s)\<close> on a string is the \<^verbatim>\<open>StringToNumber\<close> of ECMAScript: the string is
  trimmed; the empty string is 0; otherwise the whole of it has to be a
  \<^verbatim>\<open>StrNumericLiteral\<close> (a signed decimal literal with optional fraction and exponent,
  \<^verbatim>\<open>Infinity\<close>, or an unsigned binary, octal or hexadecimal integer literal), and anything
  else is \<^verbatim>\<open>NaN\<close>. The mathematical value is kept exact, except that a value beyond the
  range of doubles becomes an infinity, as rounding makes it.
\<close>

definition digit_of :: "char \<Rightarrow> nat" where
  "digit_of c =
     (let n = (of_char c :: nat) in
      if 48 \<le> n \<and> n \<le> 57 then n - 48
      else if 97 \<le> n \<and> n \<le> 102 then n - 87
      else if 65 \<le> n \<and> n \<le> 70 then n - 55
      else 36)"

definition isDecimalDigit :: "char \<Rightarrow> bool" where
  "isDecimalDigit c = (digit_of c < 10)"

definition digits_value :: "nat \<Rightarrow> string \<Rightarrow> nat" where
  "digits_value b ds = foldl (\<lambda>a c. a * b + digit_of c) 0 ds"

definition all_digits :: "nat \<Rightarrow> string \<Rightarrow> bool" where
  "all_digits b ds = (ds \<noteq> [] \<and> list_all (\<lambda>c. digit_of c < b) ds)"

definition round_to_number :: "rat \<Rightarrow> jsnum" where
  "round_to_number x =
     (if 2 ^ 1024 - 2 ^ 970 \<le> x then PosInf
      else if x \<le> - (2 ^ 1024 - 2 ^ 970) then NegInf
      else Fin x)"

definition negate :: "jsnum \<Rightarrow> jsnum" where
  "negate n = (case n of Fin x \<Rightarrow> Fin (- x) | PosInf \<Rightarrow> NegInf | NegInf \<Rightarrow> PosInf | NaN \<Rightarrow> NaN)"

definition pow10 :: "int \<Rightarrow> rat" where
  "pow10 e = (if 0 \<le> e then 10 ^ nat e else 1 / 10 ^ nat (- e))"

definition ExponentPart :: "string \<Rightarrow> int option" where
  "ExponentPart s =
     (case s of
        [] \<Rightarrow> Some 0
      | c # r \<Rightarrow>
          if c = CHR ''e'' \<or> c = CHR ''E'' then
            (case r of
               [] \<Rightarrow> None
             | d # ds \<Rightarrow>
                 if d = CHR ''+'' then
                   (if all_digits 10 ds then Some (int (digits_value 10 ds)) else None)
                 else if d = CHR ''-'' then
                   (if all_digits 10 ds then Some (- int (digits_value 10 ds)) else None)
                 else if all_digits 10 r then Some (int (digits_value 10 r))
                 else None)
          else None)"

definition StrUnsignedDecimalLiteral :: "string \<Rightarrow> jsnum" where
  "StrUnsignedDecimalLiteral s =
     (if s = ''Infinity'' then PosInf
      else
        let ip = takeWhile isDecimalDigit s;
            r1 = dropWhile isDecimalDigit s;
            dot = (r1 \<noteq> [] \<and> hd r1 = CHR ''.'');
            fp = (if dot then takeWhile isDecimalDigit (tl r1) else []);
            r2 = (if dot then dropWhile isDecimalDigit (tl r1) else r1)
        in if ip = [] \<and> fp = [] then NaN
           else (case ExponentPart r2 of
                   None \<Rightarrow> NaN
                 | Some e \<Rightarrow>
                     round_to_number
                       ((of_nat (digits_value 10 ip)
                          + of_nat (digits_value 10 fp) / 10 ^ length fp) * pow10 e)))"

definition NonDecimalIntegerLiteral :: "string \<Rightarrow> jsnum option" where
  "NonDecimalIntegerLiteral s =
     (case s of
        z # k # ds \<Rightarrow>
          if z \<noteq> CHR ''0'' then None
          else if k = CHR ''b'' \<or> k = CHR ''B'' then
            Some (if all_digits 2 ds then round_to_number (of_nat (digits_value 2 ds)) else NaN)
          else if k = CHR ''o'' \<or> k = CHR ''O'' then
            Some (if all_digits 8 ds then round_to_number (of_nat (digits_value 8 ds)) else NaN)
          else if k = CHR ''x'' \<or> k = CHR ''X'' then
            Some (if all_digits 16 ds then round_to_number (of_nat (digits_value 16 ds)) else NaN)
          else None
      | _ \<Rightarrow> None)"

definition StrNumericLiteral :: "string \<Rightarrow> jsnum" where
  "StrNumericLiteral s =
     (case NonDecimalIntegerLiteral s of
        Some n \<Rightarrow> n
      | None \<Rightarrow>
          (case s of
             [] \<Rightarrow> NaN
           | c # r \<Rightarrow>
               if c = CHR ''+'' then StrUnsignedDecimalLiteral r
               else if c = CHR ''-'' then negate (StrUnsignedDecimalLiteral r)
               else StrUnsignedDecimalLiteral s))"

definition Number :: "string \<Rightarrow> jsnum" where
  "Number s = (let t = trim s in if t = [] then Fin 0 else StrNumericLiteral t)"

section \<open>Numeric coercion\<close>

definition isString :: "jsval \<Rightarrow> bool" where
  "isString v = (case v of JString s \<Rightarrow> True | _ \<Rightarrow> False)"

definition isFinite :: "jsnum \<Rightarrow> bool" where
  "isFinite n = (case n of Fin x \<Rightarrow> True | _ \<Rightarrow> False)"

definition isNumber :: "jsval \<Rightarrow> bool" where
  "isNumber v = (case v of JNumber n \<Rightarrow> isFinite n | _ \<Rightarrow> False)"

text \<open>\<^verbatim>\<open>coerceNumber\<close>: \<open>None\<close> is \<^verbatim>\<open>undefined\<close>.\<close>

definition coerceNumber :: "jsval \<Rightarrow> rat option" where
  "coerceNumber v =
     (case v of
        JNumber n \<Rightarrow> (case n of Fin x \<Rightarrow> Some x | _ \<Rightarrow> None)
      | JString s \<Rightarrow> (case Number s of Fin x \<Rightarrow> Some x | _ \<Rightarrow> None)
      | _ \<Rightarrow> None)"

section \<open>Default selections\<close>

text \<open>
  \<^verbatim>\<open>String.prototype.toLowerCase\<close> on 8-bit characters: the capital letters of ASCII and
  of Latin-1 move 32 places up.
\<close>

definition toLowerCase :: "string \<Rightarrow> string" where
  "toLowerCase s =
     map (\<lambda>c. let n = (of_char c :: nat) in
                if (65 \<le> n \<and> n \<le> 90) \<or> (192 \<le> n \<and> n \<le> 222 \<and> n \<noteq> 215)
                then char_of (n + 32) else c) s"

text \<open>
  The three slots \<^verbatim>\<open>groupKey\<close>, \<^verbatim>\<open>metricKey\<close> and \<^verbatim>\<open>dateKey\<close> of the component state;
  \<open>None\<close> is \<^verbatim>\<open>undefined\<close>.
\<close>

record selection =
  group_slot :: "string option"
  metric_slot :: "string option"
  date_slot :: "string option"

definition groupCandidates :: "string list" where
  "groupCandidates =
     [''geo_id_name'', ''geoid_name'', ''geo_name'', ''borough'', ''neighborhood'',
      ''community_district'']"

definition metricCandidates :: "string list" where
  "metricCandidates =
     [''air_quality_index'', ''aqi'', ''pm25'', ''pm_2_5'', ''no2'', ''ozone'', ''so2'',
      ''value'', ''score'']"

definition dateCandidates :: "string list" where
  "dateCandidates =
     [''date'', ''measurement_date'', ''sample_date'', ''created_date'', ''time'',
      ''timestamp'', ''datetime'']"

text \<open>\<^verbatim>\<open>columns.find((c) => candidates.includes(c.toLowerCase())) || columns[0]\<close>\<close>

definition first_column :: "string list \<Rightarrow> string option" where
  "first_column columns = (case columns of [] \<Rightarrow> None | c # cs \<Rightarrow> Some c)"

definition preferred_column :: "string list \<Rightarrow> string list \<Rightarrow> string option" where
  "preferred_column candidates columns =
     or_else (List.find (\<lambda>c. toLowerCase c \<in> set candidates) columns) (first_column columns)"

text \<open>The updater functions handed to the three state setters.\<close>

definition default_slot :: "string list \<Rightarrow> string list \<Rightarrow> string option \<Rightarrow> string option" where
  "default_slot candidates columns prev =
     (if selected prev then prev else preferred_column candidates columns)"

text \<open>The effect that initialises the defaults, run whenever the rows or the columns change.\<close>

definition init_defaults ::
  "AnyRecord list \<Rightarrow> string list \<Rightarrow> string list \<Rightarrow> string list \<Rightarrow> selection \<Rightarrow> selection" where
  "init_defaults rows stringColumns numericColumns dateColumns sel =
     (if rows = [] then sel
      else \<lparr>group_slot = default_slot groupCandidates stringColumns (group_slot sel),
            metric_slot = default_slot metricCandidates numericColumns (metric_slot sel),
            date_slot = default_slot dateCandidates dateColumns (date_slot sel)\<rparr>)"

section \<open>Latest value per group\<close>

text \<open>
  A JavaScript \<^verbatim>\<open>Map\<close> keeps its keys in insertion order: it is an association list
  with distinct keys, \<^verbatim>\<open>get\<close> is \<open>map_of\<close>, and \<^verbatim>\<open>set\<close> is \<open>AList.update\<close>, which
  replaces the value of a key in place and appends a new key at the end.

  \<^verbatim>\<open>Date.parse\<close> depends on the engine for every format but the ISO one, so the
  aggregators take it as the parameter \<open>Date_parse\<close>, \<open>None\<close> being \<^verbatim>\<open>NaN\<close>.
\<close>

record Latest =
  dateMs :: int
  latest_value :: rat

record ranked =
  label :: string
  ranked_value :: rat

text \<open>The group of a row, when the row passes the guard \<^verbatim>\<open>!isString(g) || !g.trim()\<close>.\<close>

definition group_value :: "string \<Rightarrow> AnyRecord \<Rightarrow> string option" where
  "group_value gk r =
     (case get_prop r gk of
        JString g \<Rightarrow> if truthy (trim g) then Some g else None
      | _ \<Rightarrow> None)"

text \<open>The display name of a row: \<^verbatim>\<open>isString(nm) && nm.trim()\<close> under \<^verbatim>\<open>if (nameKey)\<close>.\<close>

definition name_value :: "string option \<Rightarrow> AnyRecord \<Rightarrow> string option" where
  "name_value nameKey r =
     (case nameKey of
        None \<Rightarrow> None
      | Some nk \<Rightarrow>
          if truthy nk then
            (case get_prop r nk of
               JString nm \<Rightarrow> if truthy (trim nm) then Some nm else None
             | _ \<Rightarrow> None)
          else None)"

text \<open>The timestamp \<^verbatim>\<open>t\<close> of a row.\<close>

definition recency :: "(string \<Rightarrow> int option) \<Rightarrow> string option \<Rightarrow> AnyRecord \<Rightarrow> int" where
  "recency Date_parse dateKey r =
     (case dateKey of
        None \<Rightarrow> 0
      | Some dk \<Rightarrow>
          if truthy dk then
            (case get_prop r dk of
               JString ds \<Rightarrow> (case Date_parse ds of Some tt \<Rightarrow> tt | None \<Rightarrow> 0)
             | _ \<Rightarrow> 0)
          else 0)"

text \<open>One turn of the loop over the rows, on the pair of maps \<^verbatim>\<open>(latestByGroup, idToName)\<close>.\<close>

definition chart_row ::
  "(string \<Rightarrow> int option) \<Rightarrow> string \<Rightarrow> string \<Rightarrow> string option \<Rightarrow> string option \<Rightarrow>
   (string \<times> Latest) list \<times> (string \<times> string) list \<Rightarrow> AnyRecord \<Rightarrow>
   (string \<times> Latest) list \<times> (string \<times> string) list" where
  "chart_row Date_parse gk mk dateKey nameKey st r =
     (case group_value gk r of
        None \<Rightarrow> st
      | Some g \<Rightarrow>
          (case coerceNumber (get_prop r mk) of
             None \<Rightarrow> st
           | Some n \<Rightarrow>
               let idToName =
                     (case name_value nameKey r of
                        None \<Rightarrow> snd st
                      | Some nm \<Rightarrow>
                          if map_of (snd st) g = None then AList.update g nm (snd st)
                          else snd st);
                   t = recency Date_parse dateKey r;
                   latestByGroup =
                     (case map_of (fst st) g of
                        None \<Rightarrow> AList.update g \<lparr>dateMs = t, latest_value = n\<rparr> (fst st)
                      | Some prev \<Rightarrow>
                          if dateMs prev \<le> t
                          then AList.update g \<lparr>dateMs = t, latest_value = n\<rparr> (fst st)
                          else fst st)
               in (latestByGroup, idToName)))"

definition chart_maps ::
  "(string \<Rightarrow> int option) \<Rightarrow> AnyRecord list \<Rightarrow> string \<Rightarrow> string \<Rightarrow> string option \<Rightarrow>
   string option \<Rightarrow> (string \<times> Latest) list \<times> (string \<times> string) list" where
  "chart_maps Date_parse filteredRows gk mk dateKey nameKey =
     foldl (chart_row Date_parse gk mk dateKey nameKey) ([], []) filteredRows"

text \<open>
  \<^verbatim>\<open>data.sort((a, b) => b.value - a.value)\<close>: the sort of an array is stable, and the
  values are finite, so it is the stable sort on the negated value.
\<close>

definition chartData ::
  "(string \<Rightarrow> int option) \<Rightarrow> AnyRecord list \<Rightarrow> string option \<Rightarrow> string option \<Rightarrow>
   string option \<Rightarrow> string option \<Rightarrow> ranked list" where
  "chartData Date_parse filteredRows groupKey metricKey dateKey nameKey =
     (case groupKey of
        None \<Rightarrow> []
      | Some gk \<Rightarrow>
          (case metricKey of
             None \<Rightarrow> []
           | Some mk \<Rightarrow>
               if \<not> truthy gk \<or> \<not> truthy mk then []
               else
                 let maps = chart_maps Date_parse filteredRows gk mk dateKey nameKey;
                     data =
                       map (\<lambda>(id, v).
                              \<lparr>label = (case map_of (snd maps) id of Some nm \<Rightarrow> nm | None \<Rightarrow> id),
                               ranked_value = latest_value v\<rparr>)
                           (fst maps)
                 in take 10 (sort_key (\<lambda>e. - ranked_value e) data)))"

section \<open>Time series and moving average\<close>

record point =
  date :: string
  point_value :: rat

record ma_point = point +
  ma :: "rat option"

text \<open>
  One turn of the loop of \<^verbatim>\<open>timeSeries\<close> on the map \<^verbatim>\<open>latestPerDay\<close>. The parameter
  \<open>isoDay\<close> is \<^verbatim>\<open>new Date(t).toISOString().slice(0, 10)\<close>.
\<close>

definition day_row ::
  "(string \<Rightarrow> int option) \<Rightarrow> (int \<Rightarrow> string) \<Rightarrow> string \<Rightarrow> string \<Rightarrow> string option \<Rightarrow> string \<Rightarrow>
   (string \<times> rat) list \<Rightarrow> AnyRecord \<Rightarrow> (string \<times> rat) list" where
  "day_row Date_parse isoDay mk dk groupKey selectedGroupValue latestPerDay r =
     (if (case groupKey of
            None \<Rightarrow> False
          | Some gk \<Rightarrow>
              truthy gk \<and> selectedGroupValue \<noteq> ''All'' \<and> get_prop r gk \<noteq> JString selectedGroupValue)
      then latestPerDay
      else
        (case get_prop r dk of
           JString ds \<Rightarrow>
             (case Date_parse ds of
                None \<Rightarrow> latestPerDay
              | Some t \<Rightarrow>
                  (case coerceNumber (get_prop r mk) of
                     None \<Rightarrow> latestPerDay
                   | Some n \<Rightarrow> AList.update (isoDay t) n latestPerDay))
         | _ \<Rightarrow> latestPerDay))"

text \<open>
  \<^verbatim>\<open>localeCompare\<close> on day strings is the order of their characters, so the sort is the
  stable sort on the date under the lexicographic order of strings.
\<close>

definition timeSeries ::
  "(string \<Rightarrow> int option) \<Rightarrow> (int \<Rightarrow> string) \<Rightarrow> AnyRecord list \<Rightarrow> string option \<Rightarrow>
   string option \<Rightarrow> string option \<Rightarrow> string \<Rightarrow> point list" where
  "timeSeries Date_parse isoDay filteredRows metricKey dateKey groupKey selectedGroupValue =
     (case metricKey of
        None \<Rightarrow> []
      | Some mk \<Rightarrow>
          (case dateKey of
             None \<Rightarrow> []
           | Some dk \<Rightarrow>
               if \<not> truthy mk \<or> \<not> truthy dk then []
               else
                 let latestPerDay =
                       foldl (day_row Date_parse isoDay mk dk groupKey selectedGroupValue) []
                         filteredRows
                 in sort_key date
                      (map (\<lambda>(d, v). \<lparr>date = d, point_value = v\<rparr>) latestPerDay)))"

text \<open>The body of the loop of \<^verbatim>\<open>timeSeriesWithMA\<close> at index \<open>i\<close>, on \<^verbatim>\<open>(run, ma)\<close>.\<close>

definition window :: nat where
  "window = 7"

definition ma_step :: "rat list \<Rightarrow> rat \<times> rat option list \<Rightarrow> nat \<Rightarrow> rat \<times> rat option list" where
  "ma_step vals st i =
     (let run1 = fst st + vals ! i;
          run2 = (if window \<le> i then run1 - vals ! (i - window) else run1)
      in (run2, snd st @ [if window - 1 \<le> i then Some (run2 / of_nat window) else None]))"

definition moving_average :: "rat list \<Rightarrow> rat option list" where
  "moving_average vals = snd (foldl (ma_step vals) (0, []) [0..<length vals])"

text \<open>\<^verbatim>\<open>ma[i]\<close>, which is \<^verbatim>\<open>undefined\<close> beyond the end of the array.\<close>

definition ma_at :: "rat option list \<Rightarrow> nat \<Rightarrow> rat option" where
  "ma_at mas i = (if i < length mas then mas ! i else None)"

definition timeSeriesWithMA :: "point list \<Rightarrow> ma_point list" where
  "timeSeriesWithMA ts =
     (if ts = [] then []
      else
        let vals = map point_value ts;
            mas = moving_average vals
        in map (\<lambda>i. \<lparr>date = date (ts ! i), point_value = point_value (ts ! i), ma = ma_at mas i\<rparr>)
             [0..<length ts])"

section \<open>Histogram\<close>


text \<open>\<^verbatim>\<open>.map((r) => coerceNumber(r[metricKey])).filter((n) => n !== undefined)\<close>\<close>

definition metric_values :: "AnyRecord list \<Rightarrow> string \<Rightarrow> rat list" where
  "metric_values filteredRows mk = List.map_filter (\<lambda>r. coerceNumber (get_prop r mk)) filteredRows"






section \<open>Summary statistics\<close>

record summary =
  st_count :: nat
  st_min :: rat
  st_max :: rat
  st_mean :: rat
  st_median :: rat
  st_p95 :: rat

text \<open>The index \<^verbatim>\<open>Math.min(count - 1, Math.floor(count * 0.95))\<close>.\<close>

definition p95_index :: "nat \<Rightarrow> nat" where
  "p95_index n = min (n - 1) (nat \<lfloor>(of_nat n :: rat) * (95 / 100)\<rfloor>)"

text \<open>The statistics of the sorted values \<^verbatim>\<open>vals\<close>.\<close>

definition summarize :: "rat list \<Rightarrow> summary" where
  "summarize vals =
     (let n = length vals in
      if n = 0
      then \<lparr>st_count = 0, st_min = 0, st_max = 0, st_mean = 0, st_median = 0, st_p95 = 0\<rparr>
      else
        \<lparr>st_count = n,
         st_min = vals ! 0,
         st_max = vals ! (n - 1),
         st_mean = foldl (+) 0 vals / of_nat n,
         st_median =
           (if n mod 2 \<noteq> 0 then vals ! ((n - 1) div 2)
            else (vals ! (n div 2 - 1) + vals ! (n div 2)) / 2),
         st_p95 = vals ! p95_index n\<rparr>)"

text \<open>\<^verbatim>\<open>stats\<close>: \<open>None\<close> is \<^verbatim>\<open>null\<close>, returned when no metric column is selected.\<close>

definition stats :: "AnyRecord list \<Rightarrow> string option \<Rightarrow> summary option" where
  "stats filteredRows metricKey =
     (case metricKey of
        None \<Rightarrow> None
      | Some mk \<Rightarrow>
          if \<not> truthy mk then None
          else Some (summarize (sort (metric_values filteredRows mk))))"

section \<open>The specification's notions\<close>

text \<open>
  The definitions of this section follow the words of the specification; the theorems
  below compare them with the functions of the program above.
\<close>

subsection \<open>Latest-value ranking\<close>

text \<open>
  The reading of a row that the ranking considers: its group, its recency timestamp and its
  metric value.
\<close>

definition reading ::
  "(string \<Rightarrow> int option) \<Rightarrow> string \<Rightarrow> string \<Rightarrow> string option \<Rightarrow> AnyRecord \<Rightarrow>
   (string \<times> int \<times> rat) option" where
  "reading Date_parse gk mk dateKey r =
     (case group_value gk r of
        None \<Rightarrow> None
      | Some g \<Rightarrow>
          (case coerceNumber (get_prop r mk) of
             None \<Rightarrow> None
           | Some n \<Rightarrow> Some (g, recency Date_parse dateKey r, n)))"

definition readings ::
  "(string \<Rightarrow> int option) \<Rightarrow> string \<Rightarrow> string \<Rightarrow> string option \<Rightarrow> AnyRecord list \<Rightarrow>
   (string \<times> int \<times> rat) list" where
  "readings Date_parse gk mk dateKey rows = List.map_filter (reading Date_parse gk mk dateKey) rows"

text \<open>The readings of one group, in the order of the rows.\<close>

definition readings_of :: "string \<Rightarrow> (string \<times> int \<times> rat) list \<Rightarrow> (int \<times> rat) list" where
  "readings_of g rs = map snd (filter (\<lambda>p. fst p = g) rs)"

text \<open>The distinct elements of a list, in the order of their first occurrences.\<close>

definition first_occurrences :: "'a list \<Rightarrow> 'a list" where
  "first_occurrences xs = rev (remdups (rev xs))"

definition group_keys ::
  "(string \<Rightarrow> int option) \<Rightarrow> string \<Rightarrow> string \<Rightarrow> string option \<Rightarrow> AnyRecord list \<Rightarrow> string list" where
  "group_keys Date_parse gk mk dateKey rows =
     first_occurrences (map fst (readings Date_parse gk mk dateKey rows))"

text \<open>
  The reading kept for a group: among the readings with the maximum timestamp, the one
  processed last.
\<close>

definition latest_for :: "(int \<times> rat) list \<Rightarrow> (int \<times> rat) option" where
  "latest_for ps =
     (if ps = [] then None
      else Some (last (filter (\<lambda>p. fst p = Max (set (map fst ps))) ps)))"

definition latest_value_of ::
  "(string \<Rightarrow> int option) \<Rightarrow> string \<Rightarrow> string \<Rightarrow> string option \<Rightarrow> AnyRecord list \<Rightarrow> string \<Rightarrow> rat" where
  "latest_value_of Date_parse gk mk dateKey rows g =
     (case latest_for (readings_of g (readings Date_parse gk mk dateKey rows)) of
        None \<Rightarrow> 0
      | Some p \<Rightarrow> snd p)"

text \<open>The groups of the ranking: sorted by descending latest value, the first ten.\<close>

definition ranked_keys ::
  "(string \<Rightarrow> int option) \<Rightarrow> string \<Rightarrow> string \<Rightarrow> string option \<Rightarrow> AnyRecord list \<Rightarrow> string list" where
  "ranked_keys Date_parse gk mk dateKey rows =
     take 10 (sort_key (\<lambda>g. - latest_value_of Date_parse gk mk dateKey rows g)
                (group_keys Date_parse gk mk dateKey rows))"

text \<open>
  The display names found for a group on the rows that the ranking considers, in the order
  of the rows, and the label they give.
\<close>

definition names_of :: "string \<Rightarrow> string \<Rightarrow> string option \<Rightarrow> AnyRecord list \<Rightarrow> string \<Rightarrow> string list" where
  "names_of gk mk nameKey rows g =
     List.map_filter
       (\<lambda>r. if group_value gk r = Some g \<and> coerceNumber (get_prop r mk) \<noteq> None
            then name_value nameKey r else None)
       rows"

definition display_label :: "string \<Rightarrow> string \<Rightarrow> string option \<Rightarrow> AnyRecord list \<Rightarrow> string \<Rightarrow> string" where
  "display_label gk mk nameKey rows g =
     (case names_of gk mk nameKey rows g of [] \<Rightarrow> g | nm # nms \<Rightarrow> nm)"

subsection \<open>Time series\<close>

text \<open>The day and the metric value of a contributing row.\<close>

definition day_reading ::
  "(string \<Rightarrow> int option) \<Rightarrow> (int \<Rightarrow> string) \<Rightarrow> string \<Rightarrow> string \<Rightarrow> string option \<Rightarrow> string \<Rightarrow>
   AnyRecord \<Rightarrow> (string \<times> rat) option" where
  "day_reading Date_parse isoDay mk dk groupKey selectedGroupValue r =
     (if (case groupKey of
            None \<Rightarrow> False
          | Some gk \<Rightarrow>
              truthy gk \<and> selectedGroupValue \<noteq> ''All'' \<and> get_prop r gk \<noteq> JString selectedGroupValue)
      then None
      else
        (case get_prop r dk of
           JString ds \<Rightarrow>
             (case Date_parse ds of
                None \<Rightarrow> None
              | Some t \<Rightarrow>
                  (case coerceNumber (get_prop r mk) of
                     None \<Rightarrow> None
                   | Some n \<Rightarrow> Some (isoDay t, n)))
         | _ \<Rightarrow> None))"

definition day_readings ::
  "(string \<Rightarrow> int option) \<Rightarrow> (int \<Rightarrow> string) \<Rightarrow> string \<Rightarrow> string \<Rightarrow> string option \<Rightarrow> string \<Rightarrow>
   AnyRecord list \<Rightarrow> (string \<times> rat) list" where
  "day_readings Date_parse isoDay mk dk groupKey selectedGroupValue rows =
     List.map_filter (day_reading Date_parse isoDay mk dk groupKey selectedGroupValue) rows"

text \<open>The value of the last reading of a day.\<close>

definition last_value_on :: "string \<Rightarrow> (string \<times> rat) list \<Rightarrow> rat option" where
  "last_value_on d rs =
     (case filter (\<lambda>p. fst p = d) rs of [] \<Rightarrow> None | p # ps \<Rightarrow> Some (snd (last (p # ps))))"


section \<open>Example data\<close>

text \<open>
  The inputs of the examples. \<open>sample_Date_parse\<close> and \<open>sample_isoDay\<close> stand for the two
  built-ins on the dates that the examples use: the time values are those of
  \<^verbatim>\<open>Date.parse\<close>, and the days those of \<^verbatim>\<open>toISOString\<close>, on the first two days of 2024.
\<close>

definition sample_Date_parse :: "string \<Rightarrow> int option" where
  "sample_Date_parse s =
     (if s = ''2024-01-01'' then Some 1704067200000
      else if s = ''2024-01-01T17:00:00Z'' then Some 1704128400000
      else if s = ''2024-01-02'' then Some 1704153600000
      else None)"

definition sample_isoDay :: "int \<Rightarrow> string" where
  "sample_isoDay t =
     (if 1704067200000 \<le> t \<and> t < 1704153600000 then ''2024-01-01''
      else if 1704153600000 \<le> t \<and> t < 1704240000000 then ''2024-01-02''
      else ''1970-01-01'')"


definition rows20 :: "AnyRecord list" where
  "rows20 = map (\<lambda>v. [''aqi'' \<mapsto> JNumber (Fin v)])
     [20, 1, 19, 2, 18, 3, 17, 4, 16, 5, 15, 6, 14, 7, 13, 8, 12, 9, 11, 10]"

definition no_metric_rows :: "AnyRecord list" where
  "no_metric_rows =
     [[''aqi'' \<mapsto> JString ''n/a''], [''aqi'' \<mapsto> JNull], [''borough'' \<mapsto> JString ''Bronx'']]"

definition half_set :: selection where
  "half_set = \<lparr>group_slot = Some ''geo_place_name'', metric_slot = None, date_slot = None\<rparr>"

definition series8 :: "point list" where
  "series8 = map (\<lambda>(d, v). \<lparr>date = d, point_value = v\<rparr>)
     [(''2024-01-01'', 1), (''2024-01-02'', 2), (''2024-01-03'', 3), (''2024-01-04'', 4),
      (''2024-01-05'', 5), (''2024-01-06'', 6), (''2024-01-07'', 7), (''2024-01-08'', 8)]"



definition same_day_rows :: "AnyRecord list" where
  "same_day_rows =
     [[''date'' \<mapsto> JString ''2024-01-01'', ''aqi'' \<mapsto> JNumber (Fin 5)],
      [''date'' \<mapsto> JString ''2024-01-01T17:00:00Z'', ''aqi'' \<mapsto> JNumber (Fin 9)]]"

definition ranking_rows :: "AnyRecord list" where
  "ranking_rows =
     [[''geo'' \<mapsto> JString ''A'', ''aqi'' \<mapsto> JNumber (Fin 10), ''date'' \<mapsto> JString ''2024-01-01''],
      [''geo'' \<mapsto> JString ''A'', ''aqi'' \<mapsto> JNumber (Fin 20), ''date'' \<mapsto> JString ''2024-01-02''],
      [''geo'' \<mapsto> JString ''B'', ''aqi'' \<mapsto> JNumber (Fin 5), ''date'' \<mapsto> JString ''2024-01-01'']]"

definition recency_rows :: "AnyRecord list" where
  "recency_rows =
     [[''geo'' \<mapsto> JString ''A'', ''aqi'' \<mapsto> JNumber (Fin 20), ''date'' \<mapsto> JString ''2024-01-02''],
      [''geo'' \<mapsto> JString ''A'', ''aqi'' \<mapsto> JNumber (Fin 10), ''date'' \<mapsto> JString ''2024-01-01''],
      [''geo'' \<mapsto> JString ''B'', ''aqi'' \<mapsto> JNumber (Fin 5), ''date'' \<mapsto> JString ''2024-01-01''],
      [''geo'' \<mapsto> JString ''B'', ''aqi'' \<mapsto> JNumber (Fin 7), ''date'' \<mapsto> JString ''2024-01-01'']]"

definition blank_group_rows :: "AnyRecord list" where
  "blank_group_rows = [[''geo'' \<mapsto> JString '' '', ''aqi'' \<mapsto> JNumber (Fin 5)]]"

definition named_rows :: "AnyRecord list" where
  "named_rows =
     [[''geo'' \<mapsto> JString ''A'', ''geo_name'' \<mapsto> JString '' '', ''aqi'' \<mapsto> JNumber (Fin 1)],
      [''geo'' \<mapsto> JString ''A'', ''geo_name'' \<mapsto> JString ''Alpha'', ''aqi'' \<mapsto> JNumber (Fin 2)],
      [''geo'' \<mapsto> JString ''A'', ''geo_name'' \<mapsto> JString ''Beta'', ''aqi'' \<mapsto> JNumber (Fin 3)],
      [''geo'' \<mapsto> JString ''B'', ''aqi'' \<mapsto> JNumber (Fin 4)]]"

definition skipped_name_rows :: "AnyRecord list" where
  "skipped_name_rows =
     [[''geo'' \<mapsto> JString ''A'', ''geo_name'' \<mapsto> JString ''Alpha'', ''aqi'' \<mapsto> JString ''n/a''],
      [''geo'' \<mapsto> JString ''A'', ''geo_name'' \<mapsto> JString ''Beta'', ''aqi'' \<mapsto> JNumber (Fin 5)]]"

section \<open>Numeric coercion: the theorems\<close>

lemma round_to_number_small: "\<bar>x\<bar> \<le> 10 ^ 300 \<Longrightarrow> round_to_number x = Fin x"
  unfolding round_to_number_def by (simp add: abs_le_iff)

lemmas Number_eval = Number_def trim_def isWhiteSpace_def StrNumericLiteral_def
  NonDecimalIntegerLiteral_def StrUnsignedDecimalLiteral_def ExponentPart_def all_digits_def
  digits_value_def digit_of_def isDecimalDigit_def pow10_def negate_def round_to_number_small

lemma digit_of_decimal: "digit_of c < 10 \<longleftrightarrow> 48 \<le> (of_char c :: nat) \<and> (of_char c :: nat) \<le> 57"
  by (auto simp: digit_of_def Let_def)

lemma decimal_not_space: "digit_of c < 10 \<Longrightarrow> \<not> isWhiteSpace c"
  by (auto simp: digit_of_decimal isWhiteSpace_def)

lemma trim_no_space:
  assumes "s \<noteq> []" and "\<not> isWhiteSpace (hd s)" and "\<not> isWhiteSpace (last s)"
  shows "trim s = s"
proof -
  have a: "dropWhile isWhiteSpace s = s" using assms(1,2) by (cases s) simp_all
  have dw: "dropWhile isWhiteSpace xs = xs" if "xs \<noteq> []" "\<not> isWhiteSpace (hd xs)" for xs
    using that by (cases xs) simp_all
  have "rev s \<noteq> []" "hd (rev s) = last s" using assms(1) by (simp_all add: hd_rev)
  then have b: "dropWhile isWhiteSpace (rev s) = rev s" using assms(3) by (intro dw) simp_all
  show ?thesis by (simp add: trim_def a b)
qed

text \<open>On a string of decimal digits \<^verbatim>\<open>Number\<close> is the decimal value.\<close>

lemma Number_decimal_digits:
  assumes "all_digits 10 ds"
  shows "Number ds = round_to_number (of_nat (digits_value 10 ds))"
proof -
  have ne: "ds \<noteq> []" and dig: "\<forall>c \<in> set ds. digit_of c < 10"
    using assms by (simp_all add: all_digits_def list_all_iff)
  have hd: "digit_of (hd ds) < 10" and la: "digit_of (last ds) < 10"
    using ne dig by simp_all
  have tr: "trim ds = ds"
    using ne hd la by (intro trim_no_space decimal_not_space) simp_all
  have nd: "NonDecimalIntegerLiteral ds = None"
  proof (cases ds)
    case Nil
    then show ?thesis by (simp add: NonDecimalIntegerLiteral_def)
  next
    case (Cons z r)
    show ?thesis
    proof (cases r)
      case Nil
      then show ?thesis using Cons by (simp add: NonDecimalIntegerLiteral_def)
    next
      case (Cons k r')
      have "digit_of k < 10" using dig \<open>ds = z # r\<close> Cons by simp
      then have "k \<notin> {CHR ''b'', CHR ''B'', CHR ''o'', CHR ''O'', CHR ''x'', CHR ''X''}"
        by (auto simp: digit_of_decimal)
      then show ?thesis using \<open>ds = z # r\<close> Cons by (simp add: NonDecimalIntegerLiteral_def)
    qed
  qed
  have sign: "hd ds \<noteq> CHR ''+''" "hd ds \<noteq> CHR ''-''" "hd ds \<noteq> CHR ''I''"
    using hd by (auto simp: digit_of_decimal)
  have inf: "ds \<noteq> ''Infinity''" using sign(3) by auto
  have tw: "takeWhile isDecimalDigit ds = ds" "dropWhile isDecimalDigit ds = []"
    using dig by (simp_all add: isDecimalDigit_def)
  have "StrUnsignedDecimalLiteral ds = round_to_number (of_nat (digits_value 10 ds))"
    using ne inf by (simp add: StrUnsignedDecimalLiteral_def tw ExponentPart_def pow10_def digits_value_def)
  moreover have "StrNumericLiteral ds = StrUnsignedDecimalLiteral ds"
    using ne sign nd by (cases ds) (simp_all add: StrNumericLiteral_def)
  ultimately show ?thesis using ne by (simp add: Number_def tr)
qed

lemma Number_blank: "trim s = [] \<Longrightarrow> Number s = Fin 0"
  by (simp add: Number_def)

text \<open>
  Claim C3, as the specification states it, fails: \<^verbatim>\<open>coerceNumber\<close> converts a string with
  \<^verbatim>\<open>Number\<close>, which gives 0 for the empty string and for a string of white space, and
  reads a hexadecimal literal, none of which is a decimal numeral.
\<close>

theorem coerceNumber_blank_and_hex:
  "coerceNumber (JString '''') = Some 0 \<and>
   coerceNumber (JString ''   '') = Some 0 \<and>
   coerceNumber (JString ''0x1F'') = Some 31"
  by (simp add: coerceNumber_def Number_eval)

text \<open>
  Claim C3, amended: \<^verbatim>\<open>coerceNumber\<close> returns the number \<open>x\<close> exactly when the value is
  the finite number \<open>x\<close>, or is a string that \<^verbatim>\<open>Number\<close> converts to the finite number
  \<open>x\<close>; it returns no number exactly when the value is neither a finite number nor a
  string that \<^verbatim>\<open>Number\<close> converts to a finite number.
\<close>

theorem coerceNumber_iff:
  "(coerceNumber v = Some x \<longleftrightarrow>
      v = JNumber (Fin x) \<or> (\<exists>s. v = JString s \<and> Number s = Fin x)) \<and>
   (coerceNumber v = None \<longleftrightarrow>
      \<not> isNumber v \<and> (\<forall>s. v = JString s \<longrightarrow> \<not> isFinite (Number s)))"
  by (cases v) (auto simp: coerceNumber_def isNumber_def isFinite_def split: jsnum.splits)

theorem coerceNumber_iff_witness:
  "coerceNumber (JString ''-1.5e2'') = Some (- 150) \<and>
   coerceNumber (JString ''12px'') = None \<and>
   coerceNumber JNull = None"
  using coerceNumber_iff[of "JString ''-1.5e2''" "- 150"] coerceNumber_iff[of "JString ''12px''" 0]
    coerceNumber_iff[of JNull 0]
  by (simp add: Number_eval isNumber_def isFinite_def)

section \<open>Default selections: the theorems\<close>

text \<open>
  Claim C8: a slot that holds a column (a non-empty name, the only value the program takes
  for set) keeps it when the defaults are resolved again, whatever the rows and the
  classified columns are; a selection whose three slots are set is left unchanged; and a
  slot that changes was unset and receives the default of its column list.
\<close>

theorem init_defaults_keeps_set_slots:
  "(selected (group_slot sel) \<longrightarrow>
      group_slot (init_defaults rows sc nc dc sel) = group_slot sel) \<and>
   (selected (metric_slot sel) \<longrightarrow>
      metric_slot (init_defaults rows sc nc dc sel) = metric_slot sel) \<and>
   (selected (date_slot sel) \<longrightarrow>
      date_slot (init_defaults rows sc nc dc sel) = date_slot sel) \<and>
   (selected (group_slot sel) \<and> selected (metric_slot sel) \<and> selected (date_slot sel) \<longrightarrow>
      init_defaults rows sc nc dc sel = sel) \<and>
   (group_slot (init_defaults rows sc nc dc sel) \<noteq> group_slot sel \<longrightarrow>
      \<not> selected (group_slot sel) \<and>
      group_slot (init_defaults rows sc nc dc sel) = preferred_column groupCandidates sc) \<and>
   (metric_slot (init_defaults rows sc nc dc sel) \<noteq> metric_slot sel \<longrightarrow>
      \<not> selected (metric_slot sel) \<and>
      metric_slot (init_defaults rows sc nc dc sel) = preferred_column metricCandidates nc) \<and>
   (date_slot (init_defaults rows sc nc dc sel) \<noteq> date_slot sel \<longrightarrow>
      \<not> selected (date_slot sel) \<and>
      date_slot (init_defaults rows sc nc dc sel) = preferred_column dateCandidates dc)"
  by (cases sel) (simp add: init_defaults_def default_slot_def)

theorem init_defaults_keeps_set_slots_witness:
  "selected (group_slot half_set) \<and> \<not> selected (metric_slot half_set) \<and>
   init_defaults rows20 [''name'', ''Borough''] [''unique_id'', ''Data_Value'', ''Score''] []
     half_set =
     \<lparr>group_slot = Some ''geo_place_name'', metric_slot = Some ''Score'', date_slot = None\<rparr> \<and>
   init_defaults rows20 [''start_date''] [''x''] [''start_date'']
     (init_defaults rows20 [''name'', ''Borough''] [''unique_id'', ''Data_Value'', ''Score''] []
        half_set) =
     \<lparr>group_slot = Some ''geo_place_name'', metric_slot = Some ''Score'',
      date_slot = Some ''start_date''\<rparr>"
  using init_defaults_keeps_set_slots[of half_set rows20 "[''name'', ''Borough'']"
      "[''unique_id'', ''Data_Value'', ''Score'']" "[]"]
  by (simp add: half_set_def rows20_def init_defaults_def default_slot_def selected_def truthy_def
        preferred_column_def or_else_def first_column_def toLowerCase_def
        groupCandidates_def metricCandidates_def dateCandidates_def char_of_eq_iff)

section \<open>Latest-value ranking: the theorems\<close>

subsection \<open>Lists\<close>

lemma insort_key_map:
  "insort_key f (g x) (map g ys) = map g (insort_key (\<lambda>y. f (g y)) x ys)"
  by (induction ys) simp_all

lemma sort_key_map: "sort_key f (map g xs) = map g (sort_key (\<lambda>y. f (g y)) xs)"
  by (induction xs) (simp_all add: insort_key_map)

lemma map_of_Some_key: "map_of al k = Some v \<Longrightarrow> k \<in> fst ` set al"
  by (force dest: map_of_SomeD)

lemma first_occurrences_snoc:
  "first_occurrences (xs @ [x]) =
     (if x \<in> set xs then first_occurrences xs else first_occurrences xs @ [x])"
  by (simp add: first_occurrences_def)

lemma set_first_occurrences: "set (first_occurrences xs) = set xs"
  by (simp add: first_occurrences_def)

lemma distinct_first_occurrences: "distinct (first_occurrences xs)"
  by (simp add: first_occurrences_def)

lemma map_filter_snoc:
  "List.map_filter f (xs @ [x]) =
     List.map_filter f xs @ (case f x of None \<Rightarrow> [] | Some y \<Rightarrow> [y])"
  by (simp add: List.map_filter_def split: option.splits)

subsection \<open>The kept reading\<close>

lemma latest_for_fst:
  assumes "latest_for ps = Some q"
  shows "fst q = Max (set (map fst ps))" and "q \<in> set ps"
proof -
  have ne: "ps \<noteq> []" using assms by (auto simp: latest_for_def split: if_splits)
  define M where "M = Max (set (map fst ps))"
  have "M \<in> set (map fst ps)" unfolding M_def using ne by (intro Max_in) simp_all
  then obtain x where "x \<in> set ps" "fst x = M" by auto
  then have fne: "filter (\<lambda>p. fst p = M) ps \<noteq> []" by (auto simp: filter_empty_conv)
  have q: "q = last (filter (\<lambda>p. fst p = M) ps)"
    using assms ne by (simp add: latest_for_def M_def)
  have "q \<in> set (filter (\<lambda>p. fst p = M) ps)" unfolding q using fne by (rule last_in_set)
  then show "fst q = Max (set (map fst ps))" and "q \<in> set ps" by (simp_all add: M_def)
qed

lemma latest_for_snoc:
  "latest_for (ps @ [p]) =
     Some (case latest_for ps of None \<Rightarrow> p | Some q \<Rightarrow> if fst q \<le> fst p then p else q)"
proof (cases "ps = []")
  case True
  then show ?thesis by (simp add: latest_for_def)
next
  case False
  define M where "M = Max (set (map fst ps))"
  obtain q where q: "latest_for ps = Some q" using False by (simp add: latest_for_def)
  have qM: "fst q = M" using latest_for_fst(1)[OF q] by (simp add: M_def)
  have qdef: "q = last (filter (\<lambda>x. fst x = M) ps)"
    using q False by (simp add: latest_for_def M_def)
  have M': "Max (set (map fst (ps @ [p]))) = max (fst p) M"
    using False by (simp add: M_def)
  show ?thesis
  proof (cases "M \<le> fst p")
    case True
    then have "max (fst p) M = fst p" by simp
    then have "latest_for (ps @ [p]) = Some p"
      unfolding latest_for_def M' by simp
    then show ?thesis using q qM True by simp
  next
    case lt: False
    then have m: "max (fst p) M = M" and ne: "fst p \<noteq> M" by simp_all
    have "filter (\<lambda>x. fst x = M) (ps @ [p]) = filter (\<lambda>x. fst x = M) ps" using ne by simp
    then have "latest_for (ps @ [p]) = Some q"
      unfolding latest_for_def M' m qdef by simp
    then show ?thesis using q qM lt by simp
  qed
qed

lemma latest_for_None: "latest_for ps = None \<longleftrightarrow> ps = []"
  by (simp add: latest_for_def)

subsection \<open>One turn of the loop\<close>

lemma chart_maps_snoc:
  "chart_maps P (rows @ [r]) gk mk dk nk = chart_row P gk mk dk nk (chart_maps P rows gk mk dk nk) r"
  by (simp add: chart_maps_def)

lemma chart_row_skip: "reading P gk mk dk r = None \<Longrightarrow> chart_row P gk mk dk nk st r = st"
  by (simp add: chart_row_def reading_def split: option.splits)

lemma chart_row_fst:
  "reading P gk mk dk r = Some (g, t, n) \<Longrightarrow>
   fst (chart_row P gk mk dk nk st r) =
     (case map_of (fst st) g of
        None \<Rightarrow> AList.update g \<lparr>dateMs = t, latest_value = n\<rparr> (fst st)
      | Some prev \<Rightarrow>
          if dateMs prev \<le> t then AList.update g \<lparr>dateMs = t, latest_value = n\<rparr> (fst st)
          else fst st)"
  by (auto simp: chart_row_def reading_def Let_def split: option.splits)

lemma chart_row_snd:
  "reading P gk mk dk r = Some (g, t, n) \<Longrightarrow>
   snd (chart_row P gk mk dk nk st r) =
     (case name_value nk r of
        None \<Rightarrow> snd st
      | Some nm \<Rightarrow> if map_of (snd st) g = None then AList.update g nm (snd st) else snd st)"
  by (auto simp: chart_row_def reading_def Let_def split: option.splits)

lemma readings_snoc:
  "readings P gk mk dk (rows @ [r]) =
     readings P gk mk dk rows @ (case reading P gk mk dk r of None \<Rightarrow> [] | Some x \<Rightarrow> [x])"
  by (simp add: readings_def map_filter_snoc)

lemma reading_group:
  "reading P gk mk dk r = Some (g, t, n) \<Longrightarrow>
   group_value gk r = Some g \<and> coerceNumber (get_prop r mk) = Some n"
  by (auto simp: reading_def split: option.splits)

lemma reading_None:
  "reading P gk mk dk r = None \<Longrightarrow>
   \<not> (group_value gk r = Some g \<and> coerceNumber (get_prop r mk) \<noteq> None)"
  by (auto simp: reading_def split: option.splits)

subsection \<open>The maps after the loop\<close>

lemma chart_keys:
  "map fst (fst (chart_maps P rows gk mk dk nk)) = group_keys P gk mk dk rows"
proof (induction rows rule: rev_induct)
  case Nil
  then show ?case by (simp add: chart_maps_def group_keys_def readings_def first_occurrences_def List.map_filter_simps)
next
  case (snoc r rows)
  define al where "al = fst (chart_maps P rows gk mk dk nk)"
  have IH: "map fst al = group_keys P gk mk dk rows" using snoc by (simp add: al_def)
  show ?case
  proof (cases "reading P gk mk dk r")
    case None
    then show ?thesis
      using snoc by (simp add: chart_maps_snoc chart_row_skip group_keys_def readings_snoc)
  next
    case (Some x)
    obtain g t n where x: "x = (g, t, n)" by (cases x) auto
    have rd: "reading P gk mk dk r = Some (g, t, n)" using Some x by simp
    have mem: "g \<in> set (map fst (readings P gk mk dk rows)) \<longleftrightarrow> map_of al g \<noteq> None"
    proof -
      have "set (map fst al) = set (map fst (readings P gk mk dk rows))"
        using IH by (simp add: group_keys_def set_first_occurrences)
      then show ?thesis by (metis map_of_eq_None_iff set_map)
    qed
    have gk': "group_keys P gk mk dk (rows @ [r]) =
        (if map_of al g = None then map fst al @ [g] else map fst al)"
      using mem IH by (simp add: group_keys_def readings_snoc rd first_occurrences_snoc)
    have "map fst (fst (chart_maps P (rows @ [r]) gk mk dk nk)) =
        (if map_of al g = None then map fst al @ [g] else map fst al)"
      unfolding chart_maps_snoc chart_row_fst[OF rd] al_def[symmetric]
      by (auto simp: update_keys map_of_eq_None_iff map_of_Some_key split: option.splits)
    then show ?thesis using gk' by simp
  qed
qed

lemma chart_latest:
  "map_of (fst (chart_maps P rows gk mk dk nk)) g =
     map_option (\<lambda>p. \<lparr>dateMs = fst p, latest_value = snd p\<rparr>)
       (latest_for (readings_of g (readings P gk mk dk rows)))"
proof (induction rows arbitrary: g rule: rev_induct)
  case Nil
  then show ?case
    by (simp add: chart_maps_def readings_def readings_of_def latest_for_def List.map_filter_simps)
next
  case (snoc r rows)
  define al where "al = fst (chart_maps P rows gk mk dk nk)"
  define rs where "rs = readings P gk mk dk rows"
  have IH: "map_of al g' = map_option (\<lambda>p. \<lparr>dateMs = fst p, latest_value = snd p\<rparr>)
       (latest_for (readings_of g' rs))" for g'
    using snoc by (simp add: al_def rs_def)
  show ?case
  proof (cases "reading P gk mk dk r")
    case None
    then show ?thesis
      using snoc by (simp add: chart_maps_snoc chart_row_skip readings_snoc)
  next
    case (Some x)
    obtain g0 t n where x: "x = (g0, t, n)" by (cases x) auto
    have rd: "reading P gk mk dk r = Some (g0, t, n)" using Some x by simp
    have rs': "readings P gk mk dk (rows @ [r]) = rs @ [(g0, t, n)]"
      by (simp add: readings_snoc rd rs_def)
    have new: "fst (chart_maps P (rows @ [r]) gk mk dk nk) =
       (case map_of al g0 of
          None \<Rightarrow> AList.update g0 \<lparr>dateMs = t, latest_value = n\<rparr> al
        | Some prev \<Rightarrow>
            if dateMs prev \<le> t then AList.update g0 \<lparr>dateMs = t, latest_value = n\<rparr> al else al)"
      unfolding chart_maps_snoc chart_row_fst[OF rd] al_def[symmetric] ..
    show ?thesis
    proof (cases "g = g0")
      case False
      then have "readings_of g (rs @ [(g0, t, n)]) = readings_of g rs"
        by (simp add: readings_of_def)
      moreover have "map_of (fst (chart_maps P (rows @ [r]) gk mk dk nk)) g = map_of al g"
        unfolding new using False by (simp add: update_conv' split: option.splits)
      ultimately show ?thesis using IH[of g] by (simp add: rs')
    next
      case True
      have ro: "readings_of g0 (rs @ [(g0, t, n)]) = readings_of g0 rs @ [(t, n)]"
        by (simp add: readings_of_def)
      show ?thesis
      proof (cases "latest_for (readings_of g0 rs)")
        case None
        then have "map_of al g0 = None" using IH[of g0] by simp
        then have "map_of (fst (chart_maps P (rows @ [r]) gk mk dk nk)) g0
            = Some \<lparr>dateMs = t, latest_value = n\<rparr>"
          unfolding new by (simp add: update_conv')
        then show ?thesis using None True by (simp add: rs' ro latest_for_snoc)
      next
        case (Some q)
        then have prev: "map_of al g0 = Some \<lparr>dateMs = fst q, latest_value = snd q\<rparr>"
          using IH[of g0] by simp
        have "map_of (fst (chart_maps P (rows @ [r]) gk mk dk nk)) g0
            = Some (if fst q \<le> t then \<lparr>dateMs = t, latest_value = n\<rparr>
                    else \<lparr>dateMs = fst q, latest_value = snd q\<rparr>)"
          unfolding new prev by (simp add: update_conv' prev)
        then show ?thesis using Some True by (simp add: rs' ro latest_for_snoc)
      qed
    qed
  qed
qed

lemma names_of_snoc:
  "names_of gk mk nk (rows @ [r]) g =
     names_of gk mk nk rows g @
       (if group_value gk r = Some g \<and> coerceNumber (get_prop r mk) \<noteq> None
        then (case name_value nk r of None \<Rightarrow> [] | Some nm \<Rightarrow> [nm]) else [])"
  by (auto simp: names_of_def map_filter_snoc split: option.splits)

lemma chart_names:
  "map_of (snd (chart_maps P rows gk mk dk nk)) g =
     (case names_of gk mk nk rows g of [] \<Rightarrow> None | nm # nms \<Rightarrow> Some nm)"
proof (induction rows arbitrary: g rule: rev_induct)
  case Nil
  then show ?case by (simp add: chart_maps_def names_of_def List.map_filter_simps)
next
  case (snoc r rows)
  define ns where "ns = snd (chart_maps P rows gk mk dk nk)"
  have IH: "map_of ns g' = (case names_of gk mk nk rows g' of [] \<Rightarrow> None | nm # nms \<Rightarrow> Some nm)" for g'
    using snoc by (simp add: ns_def)
  show ?case
  proof (cases "reading P gk mk dk r")
    case None
    then show ?thesis
      using snoc reading_None[OF None, of g]
      by (auto simp: chart_maps_snoc chart_row_skip names_of_snoc)
  next
    case (Some x)
    obtain g0 t n where x: "x = (g0, t, n)" by (cases x) auto
    have rd: "reading P gk mk dk r = Some (g0, t, n)" using Some x by simp
    have grp: "group_value gk r = Some g0" "coerceNumber (get_prop r mk) = Some n"
      using reading_group[OF rd] by simp_all
    have new: "snd (chart_maps P (rows @ [r]) gk mk dk nk) =
       (case name_value nk r of
          None \<Rightarrow> ns
        | Some nm \<Rightarrow> if map_of ns g0 = None then AList.update g0 nm ns else ns)"
      unfolding chart_maps_snoc chart_row_snd[OF rd] ns_def[symmetric] ..
    show ?thesis
      unfolding new names_of_snoc using IH[of g] IH[of g0] grp
      by (auto simp: update_conv' split: option.splits list.splits)
  qed
qed

lemma group_key_latest:
  assumes "g \<in> set (group_keys P gk mk dk rows)"
  shows "latest_for (readings_of g (readings P gk mk dk rows)) \<noteq> None"
proof -
  have "g \<in> set (map fst (readings P gk mk dk rows))"
    using assms by (simp add: group_keys_def set_first_occurrences)
  then have "filter (\<lambda>p. fst p = g) (readings P gk mk dk rows) \<noteq> []"
    by (auto simp: filter_empty_conv)
  then show ?thesis by (simp add: latest_for_None readings_of_def)
qed

text \<open>The ranking in closed form: one entry per ranked group.\<close>

lemma chartData_eq:
  assumes "truthy gk" and "truthy mk"
  shows "chartData P rows (Some gk) (Some mk) dk nk =
     map (\<lambda>g. \<lparr>label = display_label gk mk nk rows g,
                ranked_value = latest_value_of P gk mk dk rows g\<rparr>)
       (ranked_keys P gk mk dk rows)"
proof -
  define al where "al = fst (chart_maps P rows gk mk dk nk)"
  define ns where "ns = snd (chart_maps P rows gk mk dk nk)"
  define G where "G = (\<lambda>g. \<lparr>label = display_label gk mk nk rows g,
                ranked_value = latest_value_of P gk mk dk rows g\<rparr>)"
  have keys: "map fst al = group_keys P gk mk dk rows" by (simp add: al_def chart_keys)
  have dist: "distinct (map fst al)" by (simp add: keys group_keys_def distinct_first_occurrences)
  have lab: "(case map_of ns g of Some nm \<Rightarrow> nm | None \<Rightarrow> g) = display_label gk mk nk rows g" for g
    by (simp add: ns_def chart_names display_label_def split: list.splits)
  have val: "latest_value v = latest_value_of P gk mk dk rows g" if "(g, v) \<in> set al" for g v
  proof -
    have "map_of al g = Some v" using that dist by simp
    then show ?thesis
      by (auto simp: al_def chart_latest latest_value_of_def split: option.splits)
  qed
  have "map (\<lambda>(id, v). \<lparr>label = (case map_of ns id of Some nm \<Rightarrow> nm | None \<Rightarrow> id),
                         ranked_value = latest_value v\<rparr>) al = map (\<lambda>p. G (fst p)) al"
    by (rule map_cong) (auto simp: G_def lab val)
  also have "\<dots> = map G (map fst al)" by simp
  finally have data: "map (\<lambda>(id, v). \<lparr>label = (case map_of ns id of Some nm \<Rightarrow> nm | None \<Rightarrow> id),
                         ranked_value = latest_value v\<rparr>) al = map G (group_keys P gk mk dk rows)"
    by (simp add: keys)
  have "chartData P rows (Some gk) (Some mk) dk nk =
      take 10 (sort_key (\<lambda>e. - ranked_value e) (map G (group_keys P gk mk dk rows)))"
    using assms by (simp add: chartData_def Let_def al_def[symmetric] ns_def[symmetric] data)
  also have "\<dots> = map G (ranked_keys P gk mk dk rows)"
    by (simp add: sort_key_map take_map ranked_keys_def G_def)
  finally show ?thesis by (simp add: G_def)
qed

lemma chartData_sorted:
  "sorted_wrt (\<lambda>a b. ranked_value b \<le> ranked_value a) (chartData P rows groupKey metricKey dk nk)"
proof -
  have "sorted_wrt (\<lambda>a b. ranked_value b \<le> ranked_value a) (take 10 (sort_key (\<lambda>e. - ranked_value e) xs))" for xs :: "ranked list"
  proof -
    have "sorted (map (\<lambda>e. - ranked_value e) (sort_key (\<lambda>e. - ranked_value e) xs))" by simp
    then have "sorted_wrt (\<lambda>a b. ranked_value b \<le> ranked_value a) (sort_key (\<lambda>e. - ranked_value e) xs)"
      by (simp add: sorted_map)
    then show ?thesis by (rule sorted_wrt_take)
  qed
  then show ?thesis by (simp add: chartData_def Let_def split: option.splits)
qed

lemma reading_iff:
  "reading P gk mk dk r = Some (g, t, n) \<longleftrightarrow>
     get_prop r gk = JString g \<and> trim g \<noteq> [] \<and> coerceNumber (get_prop r mk) = Some n \<and>
     t = recency P dk r"
  by (auto simp: reading_def group_value_def truthy_def split: option.splits jsval.splits)

text \<open>The kept reading is the last one among those with the maximum timestamp.\<close>

lemma latest_for_last_max:
  assumes "latest_for ps = Some q"
  shows "q \<in> set ps \<and> (\<forall>p \<in> set ps. fst p \<le> fst q) \<and>
         (\<exists>i < length ps. ps ! i = q \<and> (\<forall>j < length ps. i < j \<longrightarrow> fst (ps ! j) < fst q))"
proof -
  have ne: "ps \<noteq> []" using assms by (auto simp: latest_for_def split: if_splits)
  have M: "fst q = Max (set (map fst ps))" and mem: "q \<in> set ps"
    using latest_for_fst[OF assms] by simp_all
  have le: "\<forall>p \<in> set ps. fst p \<le> fst q" unfolding M by simp
  have q: "q = last (filter (\<lambda>p. fst p = fst q) ps)"
    using assms ne by (simp add: latest_for_def M)
  have fne: "filter (\<lambda>p. fst p = fst q) ps \<noteq> []" using mem by (auto simp: filter_empty_conv)
  obtain ys zs where split: "ps = ys @ q # zs" and later: "\<forall>z \<in> set zs. fst z \<noteq> fst q"
  proof -
    from mem have "\<exists>x \<in> set ps. fst x = fst q" by blast
    then obtain ys x zs where sp: "ps = ys @ x # zs" "fst x = fst q" "\<forall>z \<in> set zs. fst z \<noteq> fst q"
      using split_list_last_prop[of ps "\<lambda>x. fst x = fst q"] by blast
    have "filter (\<lambda>p. fst p = fst q) ps = filter (\<lambda>p. fst p = fst q) ys @ [x]"
      using sp by (simp add: filter_empty_conv)
    then have "q = x" using q by simp
    then show ?thesis using sp that by blast
  qed
  have "length ys < length ps" by (simp add: split)
  moreover have "ps ! length ys = q" by (simp add: split)
  moreover have "fst (ps ! j) < fst q" if "j < length ps" "length ys < j" for j
  proof -
    have "ps ! j \<in> set zs"
      using that by (auto simp: split nth_append nth_Cons split: nat.splits)
    then have "fst (ps ! j) \<noteq> fst q" using later by blast
    moreover have "fst (ps ! j) \<le> fst q" using le that(1) by simp
    ultimately show ?thesis by simp
  qed
  ultimately show ?thesis using mem le by blast
qed

lemmas chart_eval = chartData_def chart_maps_def chart_row_def group_value_def name_value_def
  recency_def get_prop_def coerceNumber_def truthy_def trim_def isWhiteSpace_def
  sample_Date_parse_def Let_def

lemma ranking_rows_chart:
  "chartData sample_Date_parse ranking_rows (Some ''geo'') (Some ''aqi'') (Some ''date'') None =
     [\<lparr>label = ''A'', ranked_value = 20\<rparr>, \<lparr>label = ''B'', ranked_value = 5\<rparr>]"
  by (simp add: ranking_rows_def chart_eval)

lemma recency_rows_chart:
  "chartData sample_Date_parse recency_rows (Some ''geo'') (Some ''aqi'') (Some ''date'') None =
     [\<lparr>label = ''A'', ranked_value = 20\<rparr>, \<lparr>label = ''B'', ranked_value = 7\<rparr>]"
  by (simp add: recency_rows_def chart_eval)

text \<open>
  Claim C1, as the specification states it, fails: a row whose group value is the string of
  one space, which is not empty, and whose metric value is the number 5 is not considered,
  since the program tests the trimmed string.
\<close>

theorem chartData_skips_blank_group:
  "get_prop (hd blank_group_rows) ''geo'' = JString '' '' \<and>
   coerceNumber (get_prop (hd blank_group_rows) ''aqi'') = Some 5 \<and>
   chartData sample_Date_parse blank_group_rows (Some ''geo'') (Some ''aqi'') None None = []"
  by (simp add: blank_group_rows_def chart_eval)

text \<open>
  Claim C1, amended: with a group column and a metric column selected, the ranking
  considers exactly the rows whose group value is a string that is not empty once trimmed
  and whose metric value coerces, each with its recency timestamp; for each ranked group
  the value is that of a reading of the group with the maximum timestamp, and the readings
  of the group that come after it are strictly older; the values of the output are those
  of the groups sorted by descending value, at most ten of them.
\<close>

theorem chartData_latest_ranking:
  "truthy gk \<Longrightarrow> truthy mk \<Longrightarrow>
   (\<forall>r g t n.
      reading P gk mk dk r = Some (g, t, n) \<longleftrightarrow>
        get_prop r gk = JString g \<and> trim g \<noteq> [] \<and>
        coerceNumber (get_prop r mk) = Some n \<and> t = recency P dk r) \<and>
   (\<forall>g \<in> set (ranked_keys P gk mk dk rows).
      \<exists>q \<in> set (readings_of g (readings P gk mk dk rows)).
        latest_value_of P gk mk dk rows g = snd q \<and>
        (\<forall>p \<in> set (readings_of g (readings P gk mk dk rows)). fst p \<le> fst q) \<and>
        (\<exists>i < length (readings_of g (readings P gk mk dk rows)).
           readings_of g (readings P gk mk dk rows) ! i = q \<and>
           (\<forall>j < length (readings_of g (readings P gk mk dk rows)).
              i < j \<longrightarrow> fst (readings_of g (readings P gk mk dk rows) ! j) < fst q))) \<and>
   map ranked_value (chartData P rows (Some gk) (Some mk) dk nk) =
     map (latest_value_of P gk mk dk rows) (ranked_keys P gk mk dk rows) \<and>
   length (chartData P rows (Some gk) (Some mk) dk nk) \<le> 10 \<and>
   sorted_wrt (\<lambda>a b. ranked_value b \<le> ranked_value a) (chartData P rows (Some gk) (Some mk) dk nk)"
proof -
  assume t: "truthy gk" "truthy mk"
  have kept: "\<exists>q \<in> set (readings_of g (readings P gk mk dk rows)).
        latest_value_of P gk mk dk rows g = snd q \<and>
        (\<forall>p \<in> set (readings_of g (readings P gk mk dk rows)). fst p \<le> fst q) \<and>
        (\<exists>i < length (readings_of g (readings P gk mk dk rows)).
           readings_of g (readings P gk mk dk rows) ! i = q \<and>
           (\<forall>j < length (readings_of g (readings P gk mk dk rows)).
              i < j \<longrightarrow> fst (readings_of g (readings P gk mk dk rows) ! j) < fst q))"
    if g: "g \<in> set (ranked_keys P gk mk dk rows)" for g
  proof -
    have "g \<in> set (group_keys P gk mk dk rows)"
      using g by (auto simp: ranked_keys_def dest: in_set_takeD)
    then obtain q where q: "latest_for (readings_of g (readings P gk mk dk rows)) = Some q"
      using group_key_latest by fastforce
    have "latest_value_of P gk mk dk rows g = snd q" by (simp add: latest_value_of_def q)
    then show ?thesis using latest_for_last_max[OF q] by blast
  qed
  have "map ranked_value (chartData P rows (Some gk) (Some mk) dk nk) =
     map (latest_value_of P gk mk dk rows) (ranked_keys P gk mk dk rows)"
    by (simp add: chartData_eq[OF t] comp_def)
  moreover have "length (chartData P rows (Some gk) (Some mk) dk nk) \<le> 10"
    by (simp add: chartData_eq[OF t] ranked_keys_def)
  ultimately show ?thesis using chartData_sorted reading_iff kept by blast
qed

theorem chartData_latest_ranking_witness:
  "truthy ''geo'' \<and> truthy ''aqi'' \<and>
   chartData sample_Date_parse ranking_rows (Some ''geo'') (Some ''aqi'') (Some ''date'') None =
     [\<lparr>label = ''A'', ranked_value = 20\<rparr>, \<lparr>label = ''B'', ranked_value = 5\<rparr>] \<and>
   map (latest_value_of sample_Date_parse ''geo'' ''aqi'' (Some ''date'') ranking_rows)
     (ranked_keys sample_Date_parse ''geo'' ''aqi'' (Some ''date'') ranking_rows) = [20, 5] \<and>
   chartData sample_Date_parse recency_rows (Some ''geo'') (Some ''aqi'') (Some ''date'') None =
     [\<lparr>label = ''A'', ranked_value = 20\<rparr>, \<lparr>label = ''B'', ranked_value = 7\<rparr>] \<and>
   map (latest_value_of sample_Date_parse ''geo'' ''aqi'' (Some ''date'') recency_rows)
     (ranked_keys sample_Date_parse ''geo'' ''aqi'' (Some ''date'') recency_rows) = [20, 7]"
proof -
  have t: "truthy ''geo''" "truthy ''aqi''" by (simp_all add: truthy_def)
  show ?thesis
    using chartData_latest_ranking[OF t, where P = sample_Date_parse and rows = ranking_rows and dk = "Some ''date''"
        and nk = None]
      chartData_latest_ranking[OF t, where P = sample_Date_parse and rows = recency_rows and dk = "Some ''date''"
        and nk = None] t
    by (simp add: ranking_rows_chart recency_rows_chart)
qed

text \<open>
  Claim C4, as the specification states it, fails: the first row of the filtered set that
  has a display name for group \<open>A\<close> says \<open>Alpha\<close>, but its metric value does not coerce,
  so the loop skips the row before it reads the name, and the label is the \<open>Beta\<close> of the
  second row.
\<close>

theorem chartData_label_skips_rows:
  "get_prop (skipped_name_rows ! 0) ''geo'' = JString ''A'' \<and>
   get_prop (skipped_name_rows ! 0) ''geo_name'' = JString ''Alpha'' \<and>
   get_prop (skipped_name_rows ! 1) ''geo'' = JString ''A'' \<and>
   get_prop (skipped_name_rows ! 1) ''geo_name'' = JString ''Beta'' \<and>
   chartData sample_Date_parse skipped_name_rows (Some ''geo'') (Some ''aqi'') None (Some ''geo_name'') =
     [\<lparr>label = ''Beta'', ranked_value = 5\<rparr>]"
  by (simp add: skipped_name_rows_def chart_eval Number_eval)

lemma named_rows_chart:
  "chartData sample_Date_parse named_rows (Some ''geo'') (Some ''aqi'') None (Some ''geo_name'') =
     [\<lparr>label = ''B'', ranked_value = 4\<rparr>, \<lparr>label = ''Alpha'', ranked_value = 3\<rparr>]"
  by (simp add: named_rows_def chart_eval)

text \<open>
  Claim C4, amended: the label of a ranked group is the first display name, not empty once
  trimmed, among the rows of that group that the ranking considers (rows whose metric
  value coerces), when a display-name column is configured and there is such a name;
  otherwise it is the group key itself (\<open>display_label\<close>).
\<close>

theorem chartData_labels:
  "truthy gk \<Longrightarrow> truthy mk \<Longrightarrow>
   map label (chartData P rows (Some gk) (Some mk) dk nk) =
     map (display_label gk mk nk rows) (ranked_keys P gk mk dk rows)"
  by (simp add: chartData_eq comp_def)

theorem chartData_labels_witness:
  "truthy ''geo'' \<and> truthy ''aqi'' \<and>
   chartData sample_Date_parse named_rows (Some ''geo'') (Some ''aqi'') None (Some ''geo_name'') =
     [\<lparr>label = ''B'', ranked_value = 4\<rparr>, \<lparr>label = ''Alpha'', ranked_value = 3\<rparr>] \<and>
   map (display_label ''geo'' ''aqi'' (Some ''geo_name'') named_rows)
     (ranked_keys sample_Date_parse ''geo'' ''aqi'' None named_rows) = [''B'', ''Alpha'']"
proof -
  have t: "truthy ''geo''" "truthy ''aqi''" by (simp_all add: truthy_def)
  show ?thesis
    using chartData_labels[OF t, where P = sample_Date_parse and rows = named_rows and dk = None
        and nk = "Some ''geo_name''"] t
    by (simp add: named_rows_chart)
qed

section \<open>Time series: the theorems\<close>

lemma day_row_reading:
  "day_row P D mk dk gk sel acc r =
     (case day_reading P D mk dk gk sel r of None \<Rightarrow> acc | Some p \<Rightarrow> AList.update (fst p) (snd p) acc)"
  by (simp add: day_row_def day_reading_def split: jsval.splits option.splits)

lemma day_fold:
  "foldl (day_row P D mk dk gk sel) acc rows =
     foldl (\<lambda>acc p. AList.update (fst p) (snd p) acc) acc (day_readings P D mk dk gk sel rows)"
  by (induction rows arbitrary: acc)
     (simp_all add: day_readings_def List.map_filter_simps day_row_reading split: option.splits)

lemma last_value_on_Cons:
  "last_value_on d (p # rs) =
     (case last_value_on d rs of
        None \<Rightarrow> if fst p = d then Some (snd p) else None
      | Some v \<Rightarrow> Some v)"
  by (simp add: last_value_on_def split: list.splits)

lemma updates_map_of:
  "map_of (foldl (\<lambda>acc p. AList.update (fst p) (snd p) acc) acc rs) d =
     (case last_value_on d rs of None \<Rightarrow> map_of acc d | Some v \<Rightarrow> Some v)"
proof (induction rs arbitrary: acc)
  case Nil
  then show ?case by (simp add: last_value_on_def)
next
  case (Cons p rs)
  show ?case
    by (simp add: Cons.IH last_value_on_Cons update_conv' split: option.splits)
qed

lemma updates_distinct:
  "distinct (map fst acc) \<Longrightarrow>
   distinct (map fst (foldl (\<lambda>acc p. AList.update (fst p) (snd p) acc) acc rs))"
  by (induction rs arbitrary: acc) (simp_all add: distinct_update)

lemma day_reading_iff:
  "day_reading P D mk dk gk sel r = Some (d, n) \<longleftrightarrow>
     \<not> (\<exists>k. gk = Some k \<and> truthy k \<and> sel \<noteq> ''All'' \<and> get_prop r k \<noteq> JString sel) \<and>
     (\<exists>ds t. get_prop r dk = JString ds \<and> P ds = Some t \<and> D t = d) \<and>
     coerceNumber (get_prop r mk) = Some n"
  by (auto simp: day_reading_def split: option.splits jsval.splits)

lemma distinct_map_sort_key:
  "distinct (map f xs) \<Longrightarrow> distinct (map f (sort_key g xs))"
  by (simp add: distinct_map)

text \<open>
  Claim C7: with a metric column and a date column selected, a row contributes its day and
  its metric value when it passes the filter on the group value (if one is selected), its
  date is a string that parses, and its metric value coerces; every day occurs at most once
  in the series, the series is sorted by day, and the point of a day holds the metric value
  of the last contributing row of that day; a day without a contributing row has no point.
\<close>

theorem timeSeries_last_write_wins:
  "truthy mk \<Longrightarrow> truthy dk \<Longrightarrow>
   (\<forall>r d n.
      day_reading P D mk dk gk sel r = Some (d, n) \<longleftrightarrow>
        \<not> (\<exists>k. gk = Some k \<and> truthy k \<and> sel \<noteq> ''All'' \<and> get_prop r k \<noteq> JString sel) \<and>
        (\<exists>ds t. get_prop r dk = JString ds \<and> P ds = Some t \<and> D t = d) \<and>
        coerceNumber (get_prop r mk) = Some n) \<and>
   distinct (map date (timeSeries P D rows (Some mk) (Some dk) gk sel)) \<and>
   sorted (map date (timeSeries P D rows (Some mk) (Some dk) gk sel)) \<and>
   (\<forall>d. map_of (map (\<lambda>p. (date p, point_value p)) (timeSeries P D rows (Some mk) (Some dk) gk sel)) d
          = last_value_on d (day_readings P D mk dk gk sel rows))"
proof -
  assume t: "truthy mk" "truthy dk"
  define al where "al = foldl (day_row P D mk dk gk sel) [] rows"
  define ts where "ts = timeSeries P D rows (Some mk) (Some dk) gk sel"
  have ts: "ts = sort_key date (map (\<lambda>(d, v). \<lparr>date = d, point_value = v\<rparr>) al)"
    using t by (simp add: ts_def timeSeries_def al_def)
  have dal: "distinct (map fst al)"
    unfolding al_def day_fold by (rule updates_distinct) simp
  have keys: "map date (map (\<lambda>(d, v). \<lparr>date = d, point_value = v\<rparr>) al) = map fst al"
    by (simp add: comp_def case_prod_beta)
  have d0: "distinct (map date (map (\<lambda>(d, v). \<lparr>date = d, point_value = v\<rparr>) al))"
    by (simp only: keys dal)
  have dts: "distinct (map date ts)"
    unfolding ts by (rule distinct_map_sort_key[OF d0])
  have sts: "sorted (map date ts)" unfolding ts by simp
  have set_eq: "set (map (\<lambda>p. (date p, point_value p)) ts) = set al"
    unfolding ts by (force simp: image_iff)
  have "distinct (map fst (map (\<lambda>p. (date p, point_value p)) ts))"
    using dts by (simp add: comp_def)
  then have "map_of (map (\<lambda>p. (date p, point_value p)) ts) = map_of al"
    using dal set_eq map_of_inject_set by blast
  moreover have "map_of al d = last_value_on d (day_readings P D mk dk gk sel rows)" for d
    unfolding al_def day_fold by (simp add: updates_map_of split: option.splits)
  ultimately have "\<forall>d. map_of (map (\<lambda>p. (date p, point_value p)) ts) d
          = last_value_on d (day_readings P D mk dk gk sel rows)"
    by simp
  then show ?thesis using dts sts day_reading_iff[of P D mk dk gk sel] unfolding ts_def by blast
qed

lemmas series_eval = timeSeries_def day_row_def same_day_rows_def get_prop_def coerceNumber_def
  sample_Date_parse_def sample_isoDay_def truthy_def

theorem timeSeries_last_write_wins_witness:
  "truthy ''aqi'' \<and> truthy ''date'' \<and>
   timeSeries sample_Date_parse sample_isoDay same_day_rows (Some ''aqi'') (Some ''date'') None ''All''
     = [\<lparr>date = ''2024-01-01'', point_value = 9\<rparr>] \<and>
   day_readings sample_Date_parse sample_isoDay ''aqi'' ''date'' None ''All'' same_day_rows
     = [(''2024-01-01'', 5), (''2024-01-01'', 9)] \<and>
   last_value_on ''2024-01-01''
     (day_readings sample_Date_parse sample_isoDay ''aqi'' ''date'' None ''All'' same_day_rows) = Some 9"
proof -
  have t: "truthy ''aqi''" "truthy ''date''" by (simp_all add: truthy_def)
  have ts: "timeSeries sample_Date_parse sample_isoDay same_day_rows (Some ''aqi'') (Some ''date'') None ''All''
     = [\<lparr>date = ''2024-01-01'', point_value = 9\<rparr>]"
    by (simp add: series_eval)
  have dr: "day_readings sample_Date_parse sample_isoDay ''aqi'' ''date'' None ''All'' same_day_rows
     = [(''2024-01-01'', 5), (''2024-01-01'', 9)]"
    by (simp add: day_readings_def day_reading_def List.map_filter_simps series_eval)
  from timeSeries_last_write_wins[OF t, where P = sample_Date_parse and D = sample_isoDay and rows = same_day_rows
      and gk = None and sel = "''All''"]
  have "map_of (map (\<lambda>p. (date p, point_value p))
          (timeSeries sample_Date_parse sample_isoDay same_day_rows (Some ''aqi'') (Some ''date'') None ''All''))
          ''2024-01-01''
        = last_value_on ''2024-01-01''
            (day_readings sample_Date_parse sample_isoDay ''aqi'' ''date'' None ''All'' same_day_rows)"
    by blast
  then show ?thesis using t ts dr by simp
qed

section \<open>Moving average: the theorems\<close>







text \<open>
  Claim C10: the augmentation returns as many points as it is given, in the same order,
  and dropping the moving-average field of its output gives back the input.
\<close>

theorem timeSeriesWithMA_frame:
  "length (timeSeriesWithMA ts) = length ts \<and>
   map (\<lambda>p. \<lparr>date = date p, point_value = point_value p\<rparr>) (timeSeriesWithMA ts) = ts"
proof -
  have "map (\<lambda>i. \<lparr>date = date (ts ! i), point_value = point_value (ts ! i)\<rparr>) [0..<length ts]
        = map (\<lambda>i. ts ! i) [0..<length ts]"
    by simp
  also have "\<dots> = ts" by (rule map_nth)
  finally show ?thesis by (simp add: timeSeriesWithMA_def Let_def comp_def)
qed

theorem timeSeriesWithMA_frame_witness:
  "map date (timeSeriesWithMA series8) = map date series8 \<and>
   map point_value (timeSeriesWithMA series8) = [1, 2, 3, 4, 5, 6, 7, 8]"
proof -
  have "map (date \<circ> (\<lambda>p. \<lparr>date = date p, point_value = point_value p\<rparr>)) (timeSeriesWithMA series8)
          = map date series8"
    and "map (point_value \<circ> (\<lambda>p. \<lparr>date = date p, point_value = point_value p\<rparr>))
           (timeSeriesWithMA series8) = map point_value series8"
    using timeSeriesWithMA_frame[of series8] by (simp_all flip: map_map)
  then show ?thesis by (simp add: comp_def series8_def)
qed

section \<open>Histogram: the theorems\<close>


















section \<open>Summary statistics: the theorems\<close>

lemma metric_values_rows20:
  "metric_values rows20 ''aqi'' =
     [20, 1, 19, 2, 18, 3, 17, 4, 16, 5, 15, 6, 14, 7, 13, 8, 12, 9, 11, 10]"
  by (simp add: rows20_def metric_values_def List.map_filter_simps get_prop_def coerceNumber_def)

text \<open>
  Claim C6: when a metric column is selected and some value coerces, the statistics exist
  and their p95 is the element of the ascending sort of the coercible values at the index
  \<open>floor (count * 0.95)\<close> clamped to \<open>count - 1\<close>.
\<close>

theorem stats_p95_nearest_rank:
  "truthy mk \<Longrightarrow> metric_values rows mk \<noteq> [] \<Longrightarrow>
   map_option st_p95 (stats rows (Some mk)) =
     Some (sort (metric_values rows mk) !
            min (length (metric_values rows mk) - 1)
                (nat \<lfloor>(of_nat (length (metric_values rows mk)) :: rat) * (95 / 100)\<rfloor>))"
  by (simp add: stats_def summarize_def Let_def p95_index_def)

theorem stats_p95_nearest_rank_witness:
  "truthy ''aqi'' \<and> metric_values rows20 ''aqi'' \<noteq> [] \<and>
   length (metric_values rows20 ''aqi'') = 20 \<and>
   nat \<lfloor>(of_nat 20 :: rat) * (95 / 100)\<rfloor> = 19 \<and>
   map_option st_p95 (stats rows20 (Some ''aqi'')) = Some 20"
proof -
  have t: "truthy ''aqi''" by (simp add: truthy_def)
  have ne: "metric_values rows20 ''aqi'' \<noteq> []" by (simp add: metric_values_rows20)
  show ?thesis using stats_p95_nearest_rank[OF t ne] t by (simp add: metric_values_rows20)
qed

text \<open>
  Claim C9: when a metric column is selected and no row has a coercible metric value, the
  statistics are the record of zeros: the aggregator returns it, it does not fail.
\<close>

theorem stats_of_no_values:
  "truthy mk \<Longrightarrow> \<forall>r \<in> set rows. coerceNumber (get_prop r mk) = None \<Longrightarrow>
   stats rows (Some mk) =
     Some \<lparr>st_count = 0, st_min = 0, st_max = 0, st_mean = 0, st_median = 0, st_p95 = 0\<rparr>"
proof -
  assume t: "truthy mk" and n: "\<forall>r \<in> set rows. coerceNumber (get_prop r mk) = None"
  have "metric_values rows mk = []"
    using n by (induction rows) (simp_all add: metric_values_def List.map_filter_simps)
  then show ?thesis using t by (simp add: stats_def summarize_def)
qed

theorem stats_of_no_values_witness:
  "truthy ''aqi'' \<and> metric_values no_metric_rows ''aqi'' = [] \<and>
   stats no_metric_rows (Some ''aqi'') =
     Some \<lparr>st_count = 0, st_min = 0, st_max = 0, st_mean = 0, st_median = 0, st_p95 = 0\<rparr>"
proof -
  have t: "truthy ''aqi''" by (simp add: truthy_def)
  have n: "\<forall>r \<in> set no_metric_rows. coerceNumber (get_prop r ''aqi'') = None"
    by (simp add: no_metric_rows_def get_prop_def coerceNumber_def Number_eval)
  have m: "metric_values no_metric_rows ''aqi'' = []"
    by (simp add: no_metric_rows_def metric_values_def List.map_filter_simps get_prop_def
          coerceNumber_def Number_eval)
  show ?thesis using stats_of_no_values[OF t n] t m by simp
qed

end
